theory Spec2Isabelle
  imports
    Main
    "HOL-Library.Sublist"
    "HOL-Library.Multiset"
    "HOL-Library.Char_ord"
    "HOL-Library.List_Lexorder"
begin

section \<open>Manifest builder: \<^verbatim>\<open>create_soundlist.py\<close> and \<^verbatim>\<open>scripts/create_audiomap.py\<close>\<close>

text \<open>
  Both scripts list a directory of sound files, build one dictionary per \<^verbatim>\<open>.wav\<close> file
  (its path and the path of an optional icon), sort the dictionaries by their
  \<^verbatim>\<open>"audio"\<close> value and dump them as JSON. The extended script also lists a directory of
  backing tracks and records the duration of every \<^verbatim>\<open>.mp3\<close> file.

  File names are values of type \<^typ>\<open>string\<close>. Python compares strings code point by code
  point, a proper prefix being smaller; that is the lexicographic order
  of lists (\<open>List_Lexorder\<close>) over the order of characters by code (\<open>Char_ord\<close>).
\<close>

subsection \<open>String operations of the Python library\<close>

text \<open>
  \<^verbatim>\<open>s.endswith(t)\<close> is \<^term>\<open>suffix t s\<close>.

  \<^verbatim>\<open>s.replace(old, new)\<close> replaces every occurrence of \<open>old\<close> in \<open>s\<close>, scanning from
  the left and resuming after each replaced occurrence. With an empty \<open>old\<close> Python puts
  \<open>new\<close> before every character and at the end.
\<close>

function replace_from :: "string \<Rightarrow> string \<Rightarrow> string \<Rightarrow> string" where
  "replace_from old new [] = []"
| "replace_from old new (c # cs) =
     (if old \<noteq> [] \<and> prefix old (c # cs)
      then new @ replace_from old new (drop (length old) (c # cs))
      else c # replace_from old new cs)"
  by pat_completeness auto
termination
  by (relation "measure (\<lambda>(old, new, s). length s)") (auto simp: neq_Nil_conv)

definition replace :: "string \<Rightarrow> string \<Rightarrow> string \<Rightarrow> string" where
  "replace s old new =
     (if old = [] then new @ concat (map (\<lambda>c. c # new) s) else replace_from old new s)"


text \<open>\<^verbatim>\<open>str(n)\<close> for the lengths printed at the end of a run: decimal digits.\<close>

definition digit_char :: "nat \<Rightarrow> char" where
  "digit_char d = ''0123456789'' ! d"

function str :: "nat \<Rightarrow> string" where
  "str n = (if n < 10 then [digit_char n] else str (n div 10) @ [digit_char (n mod 10)])"
  by pat_completeness auto
termination
  by (relation "measure id") auto

declare str.simps [simp del]

text \<open>\<^verbatim>\<open>s.isascii()\<close>: every character is below 128.\<close>

definition isascii :: "string \<Rightarrow> bool" where
  "isascii s = list_all (\<lambda>c. of_char c < (128::nat)) s"

subsection \<open>Data model\<close>

text \<open>
  The dictionaries built by the scripts have fixed keys, so they are records. Both kinds
  have the key \<^verbatim>\<open>"audio"\<close>, the sort key; \<^verbatim>\<open>None\<close> is \<^term>\<open>None\<close>. The duration is
  a Python float that the scripts only store, so its type is a parameter.
\<close>

record audio_entry =
  audio :: string

record sound_entry = audio_entry +
  icon :: "string option"

record 'd backing_track_entry = audio_entry +
  duration :: "'d option"

text \<open>The object handed to \<^verbatim>\<open>json.dump\<close>: a list in the simple script, a dictionary
  with the keys \<^verbatim>\<open>"backing_tracks"\<close> and \<^verbatim>\<open>"sounds"\<close> in the extended one.\<close>

datatype 'd document =
  SoundList "sound_entry list"
| AudioMap "'d backing_track_entry list" "sound_entry list"

subsection \<open>The environment of a run\<close>

text \<open>
  \<^item> \<open>dirs\<close>: what \<^verbatim>\<open>listdir\<close> returns for a path, in the order it enumerates the
    names; \<^term>\<open>None\<close> when the directory is missing or unreadable.
  \<^item> \<open>mp3_length\<close>: the result of \<^verbatim>\<open>MP3(filepath).info.length\<close>, either the length or
    the text of the exception raised.
  \<^item> \<open>unwritable\<close>: what the environment refuses to write: the paths that
    \<^verbatim>\<open>open(path, "w")\<close> fails on, and the lines that the encoding of stdout cannot encode.
    The output paths are ASCII and every encoding of stdout encodes ASCII text, so the two
    uses never meet.
  \<^item> \<open>files\<close>: the documents dumped so far, by path.
  \<^item> \<open>stdout\<close>: the lines printed so far.
\<close>

datatype error = OSError string | UnicodeEncodeError

record 'd world =
  dirs :: "string \<rightharpoonup> string list"
  mp3_length :: "string \<Rightarrow> string + 'd"
  unwritable :: "string set"
  files :: "string \<rightharpoonup> 'd document"
  stdout :: "string list"

definition listdir :: "'d world \<Rightarrow> string \<Rightarrow> error + string list" where
  "listdir w path = (case dirs w path of None \<Rightarrow> Inl (OSError path) | Some names \<Rightarrow> Inr names)"

text \<open>\<^verbatim>\<open>print(line)\<close> encodes the line for stdout and raises \<^verbatim>\<open>UnicodeEncodeError\<close>, writing
  nothing, when that fails; ASCII text is always encoded.\<close>

definition print :: "string \<Rightarrow> 'd world \<Rightarrow> error + 'd world" where
  "print line w =
     (if \<not> isascii line \<and> line \<in> unwritable w then Inl UnicodeEncodeError
      else Inr (w\<lparr>stdout := stdout w @ [line]\<rparr>))"

text \<open>\<^verbatim>\<open>json.dump(doc, open(path, "w"), indent=4)\<close>: opening fails before anything is
  written, otherwise the file holds the dumped document, whatever it held before.\<close>

definition json_dump :: "'d document \<Rightarrow> string \<Rightarrow> 'd world \<Rightarrow> error + 'd world" where
  "json_dump doc path w =
     (if path \<in> unwritable w then Inl (OSError path)
      else Inr (w\<lparr>files := (files w)(path \<mapsto> doc)\<rparr>))"

subsection \<open>Processing the sounds\<close>

text \<open>
  The inner loop over \<^verbatim>\<open>["png", "svg"]\<close>: the first extension whose candidate is in the
  listing sets \<^verbatim>\<open>obj["icon"]\<close> and breaks. The two scripts differ in the prefix of the icon
  path only, here \<open>icon_root\<close>.
\<close>

fun icon_loop :: "string \<Rightarrow> string list \<Rightarrow> string \<Rightarrow> string list \<Rightarrow> sound_entry \<Rightarrow> sound_entry" where
  "icon_loop icon_root filenames filename [] obj = obj"
| "icon_loop icon_root filenames filename (extension # extensions) obj =
     (let icon_filename = replace filename ''.wav'' (''__icon.'' @ extension) in
      if icon_filename \<in> set filenames
      then obj\<lparr>icon := Some (icon_root @ icon_filename)\<rparr>
      else icon_loop icon_root filenames filename extensions obj)"

text \<open>The outer loop over the listing, appending to \<open>soundlist\<close>.\<close>

fun sound_loop :: "string \<Rightarrow> string list \<Rightarrow> string list \<Rightarrow> sound_entry list \<Rightarrow> sound_entry list" where
  "sound_loop icon_root filenames [] soundlist = soundlist"
| "sound_loop icon_root filenames (filename # rest) soundlist =
     (if suffix ''.wav'' filename
      then let obj = \<lparr>audio = ''sounds/'' @ filename, icon = None\<rparr>;
               obj = icon_loop icon_root filenames filename [''png'', ''svg''] obj
           in sound_loop icon_root filenames rest (soundlist @ [obj])
      else sound_loop icon_root filenames rest soundlist)"

text \<open>The loop followed by \<^verbatim>\<open>soundlist.sort(key=lambda x: x["audio"])\<close>; Python's sort is
  stable, as is \<^const>\<open>sort_key\<close>.\<close>

definition sounds_of :: "string \<Rightarrow> string list \<Rightarrow> sound_entry list" where
  "sounds_of icon_root filenames = sort_key audio (sound_loop icon_root filenames filenames [])"

subsection \<open>Processing the backing tracks\<close>

text \<open>The text of the warning, \<^verbatim>\<open>f"Warning: Could not read duration for {filename}: {e}"\<close>.\<close>

definition warning :: "string \<Rightarrow> string \<Rightarrow> string" where
  "warning filename e = ''Warning: Could not read duration for '' @ filename @ '': '' @ e"

text \<open>The \<^verbatim>\<open>try\<close> appends the entry with the duration. \<^verbatim>\<open>except Exception as e\<close> prints
  the warning and then appends the entry with \<^verbatim>\<open>None\<close>; an exception raised by that
  \<^verbatim>\<open>print\<close> is raised inside the handler, so nothing catches it and it ends the loop.\<close>

fun backing_loop ::
  "string \<Rightarrow> string list \<Rightarrow> 'd backing_track_entry list \<Rightarrow> 'd world
    \<Rightarrow> (error + 'd backing_track_entry list) \<times> 'd world" where
  "backing_loop backing_tracks_dir [] backing_tracks w = (Inr backing_tracks, w)"
| "backing_loop backing_tracks_dir (filename # rest) backing_tracks w =
     (if suffix ''.mp3'' filename
      then let filepath = backing_tracks_dir @ ''/'' @ filename in
           case mp3_length w filepath of
             Inr d \<Rightarrow>
               backing_loop backing_tracks_dir rest
                 (backing_tracks @
                    [\<lparr>audio = ''assets/backing_tracks/'' @ filename, duration = Some d\<rparr>]) w
           | Inl e \<Rightarrow>
               (case print (warning filename e) w of
                  Inl err \<Rightarrow> (Inl err, w)
                | Inr w' \<Rightarrow>
                    backing_loop backing_tracks_dir rest
                      (backing_tracks @
                         [\<lparr>audio = ''assets/backing_tracks/'' @ filename, duration = None\<rparr>])
                      w')
      else backing_loop backing_tracks_dir rest backing_tracks w)"

subsection \<open>The two scripts\<close>

text \<open>\<^verbatim>\<open>main\<close> of \<^verbatim>\<open>create_soundlist.py\<close>. An exception leaves \<^verbatim>\<open>main\<close> with the world as
  it is at the raise.\<close>

definition create_soundlist_main :: "'d world \<Rightarrow> (error + unit) \<times> 'd world" where
  "create_soundlist_main w =
     (case listdir w ''sounds'' of
        Inl e \<Rightarrow> (Inl e, w)
      | Inr filenames \<Rightarrow>
          let soundlist = sounds_of ''sounds/'' filenames;
              output_filename = ''soundlist.json''
          in case json_dump (SoundList soundlist) output_filename w of
               Inl e \<Rightarrow> (Inl e, w)
             | Inr w1 \<Rightarrow>
                 (case print (''Created '' @ output_filename @ '' with ''
                              @ str (length soundlist) @ '' sounds'') w1 of
                    Inl e \<Rightarrow> (Inl e, w1)
                  | Inr w2 \<Rightarrow> (Inr (), w2)))"

text \<open>\<^verbatim>\<open>main\<close> of \<^verbatim>\<open>scripts/create_audiomap.py\<close>.\<close>

definition create_audiomap_main :: "'d world \<Rightarrow> (error + unit) \<times> 'd world" where
  "create_audiomap_main w =
     (let sound_dir = ''../assets/sounds'';
          backing_tracks_dir = ''../assets/backing_tracks''
      in case listdir w sound_dir of
        Inl e \<Rightarrow> (Inl e, w)
      | Inr filenames \<Rightarrow>
         (case listdir w backing_tracks_dir of
            Inl e \<Rightarrow> (Inl e, w)
          | Inr backing_filenames \<Rightarrow>
              let soundlist = sounds_of ''assets/sounds/'' filenames
              in case backing_loop backing_tracks_dir backing_filenames [] w of
                   (Inl e, w1) \<Rightarrow> (Inl e, w1)
                 | (Inr backing_tracks, w1) \<Rightarrow>
                     let backing_tracks = sort_key audio backing_tracks;
                         output_filename = ''audiomap.json''
                     in case json_dump (AudioMap backing_tracks soundlist) output_filename w1 of
                          Inl e \<Rightarrow> (Inl e, w1)
                        | Inr w2 \<Rightarrow>
                            (case print (''Created '' @ output_filename @ '' with ''
                                         @ str (length backing_tracks) @ '' backing tracks and ''
                                         @ str (length soundlist) @ '' sounds'') w2 of
                               Inl e \<Rightarrow> (Inl e, w2)
                             | Inr w3 \<Rightarrow> (Inr (), w3))))"

subsection \<open>Summaries of the loops\<close>

text \<open>What one pass of each loop body contributes, as functions of the file name: the
  dictionary appended for a sound, the dictionary appended for a backing track, and the
  warnings printed. The loops are shown below to compute exactly these.\<close>

definition sound_obj :: "string \<Rightarrow> string list \<Rightarrow> string \<Rightarrow> sound_entry" where
  "sound_obj icon_root filenames filename =
     icon_loop icon_root filenames filename [''png'', ''svg'']
       \<lparr>audio = ''sounds/'' @ filename, icon = None\<rparr>"

definition backing_obj :: "(string \<Rightarrow> string + 'd) \<Rightarrow> string \<Rightarrow> string \<Rightarrow> 'd backing_track_entry" where
  "backing_obj read_length backing_tracks_dir filename =
     \<lparr>audio = ''assets/backing_tracks/'' @ filename,
      duration = (case read_length (backing_tracks_dir @ ''/'' @ filename) of
                    Inr d \<Rightarrow> Some d | Inl e \<Rightarrow> None)\<rparr>"

fun warnings :: "(string \<Rightarrow> string + 'd) \<Rightarrow> string \<Rightarrow> string list \<Rightarrow> string list" where
  "warnings read_length dir [] = []"
| "warnings read_length dir (filename # rest) =
     (if suffix ''.mp3'' filename
      then (case read_length (dir @ ''/'' @ filename) of
              Inr d \<Rightarrow> warnings read_length dir rest
            | Inl e \<Rightarrow> warning filename e # warnings read_length dir rest)
      else warnings read_length dir rest)"

text \<open>The backing tracks of a listing, after
  \<^verbatim>\<open>backing_tracks.sort(key=lambda x: x["audio"])\<close>.\<close>

definition backing_tracks_of :: "'d world \<Rightarrow> string list \<Rightarrow> 'd backing_track_entry list" where
  "backing_tracks_of w backing_filenames =
     sort_key audio (map (backing_obj (mp3_length w) ''../assets/backing_tracks'')
                       (filter (suffix ''.mp3'') backing_filenames))"

text \<open>Whether stdout takes a line.\<close>

definition printable :: "'d world \<Rightarrow> string \<Rightarrow> bool" where
  "printable w line = (isascii line \<or> line \<notin> unwritable w)"

subsection \<open>A sample directory tree\<close>

text \<open>Two worlds with the same directories, enumerated in different orders. The duration
  of \<^verbatim>\<open>loop.mp3\<close> is written as the text of the float; \<^verbatim>\<open>broken.mp3\<close> cannot be read.\<close>

definition example_lengths :: "string \<Rightarrow> string + string" where
  "example_lengths filepath =
     (if filepath = ''../assets/backing_tracks/loop.mp3'' then Inr ''12.5''
      else Inl ''no MPEG frame'')"

definition example_world :: "string world" where
  "example_world =
     \<lparr>dirs = [''sounds'' \<mapsto> [''snare.wav'', ''kick__icon.png'', ''kick.wav''],
              ''../assets/sounds'' \<mapsto> [''snare.wav'', ''kick__icon.svg'', ''kick__icon.png'', ''kick.wav''],
              ''../assets/backing_tracks'' \<mapsto> [''loop.mp3'', ''notes.txt'', ''broken.mp3'']],
      mp3_length = example_lengths,
      unwritable = {},
      files = Map.empty,
      stdout = []\<rparr>"

definition example_world_reordered :: "string world" where
  "example_world_reordered =
     \<lparr>dirs = [''sounds'' \<mapsto> [''kick.wav'', ''snare.wav'', ''kick__icon.png''],
              ''../assets/sounds'' \<mapsto> [''kick.wav'', ''kick__icon.png'', ''kick__icon.svg'', ''snare.wav''],
              ''../assets/backing_tracks'' \<mapsto> [''broken.mp3'', ''loop.mp3'', ''notes.txt'']],
      mp3_length = example_lengths,
      unwritable = {},
      files = Map.empty,
      stdout = []\<rparr>"

text \<open>A world without the source directories, holding the output of an earlier run.\<close>

definition stale_world :: "string world" where
  "stale_world =
     \<lparr>dirs = Map.empty,
      mp3_length = example_lengths,
      unwritable = {},
      files = [''soundlist.json'' \<mapsto> SoundList [], ''audiomap.json'' \<mapsto> AudioMap [] []],
      stdout = []\<rparr>"

text \<open>A process whose stdout encodes ASCII only, with an unreadable backing track whose
  name has the letter U+00E9.\<close>

definition ascii_stdout_world :: "string world" where
  "ascii_stdout_world =
     \<lparr>dirs = [''../assets/sounds'' \<mapsto> [''kick.wav''],
              ''../assets/backing_tracks'' \<mapsto> [''loop.mp3'', ''caf'' @ [CHR 0xE9] @ ''.mp3'']],
      mp3_length = example_lengths,
      unwritable = {line. \<not> isascii line},
      files = Map.empty,
      stdout = []\<rparr>"

section \<open>Properties\<close>

subsection \<open>The loops compute their summaries\<close>

lemma audio_icon_loop: "audio (icon_loop r fs f exts obj) = audio obj"
  by (induction exts) (simp_all add: Let_def)

lemma icon_loop_set_cong:
  "set fs = set fs' \<Longrightarrow> icon_loop r fs f exts obj = icon_loop r fs' f exts obj"
  by (induction exts) (simp_all add: Let_def)

lemma sound_loop_eq:
  "sound_loop r fs xs acc = acc @ map (sound_obj r fs) (filter (suffix ''.wav'') xs)"
  by (induction xs arbitrary: acc) (simp_all add: Let_def sound_obj_def del: icon_loop.simps)

lemma audio_sound_obj: "audio (sound_obj r fs f) = ''sounds/'' @ f"
  by (simp add: sound_obj_def audio_icon_loop del: icon_loop.simps)

lemma sounds_of_eq:
  "sounds_of r fs = sort_key audio (map (sound_obj r fs) (filter (suffix ''.wav'') fs))"
  by (simp add: sounds_of_def sound_loop_eq)

lemma inj_on_audio_sound_obj: "inj_on audio (sound_obj r fs ` A)"
  by (auto simp: inj_on_def audio_sound_obj)

lemma sounds_of_perm:
  assumes "mset fs = mset fs'"
  shows "sounds_of r fs = sounds_of r fs'"
proof -
  from assms have "set fs = set fs'" by (rule mset_eq_setD)
  then have obj: "sound_obj r fs = sound_obj r fs'"
    unfolding sound_obj_def by (intro ext icon_loop_set_cong)
  let ?xs = "map (sound_obj r fs) (filter (suffix ''.wav'') fs)"
  let ?ys = "map (sound_obj r fs) (filter (suffix ''.wav'') fs')"
  have "mset ?xs = mset ?ys" using assms by simp
  moreover have "inj_on audio (set ?xs)"
    unfolding set_map by (rule inj_on_audio_sound_obj)
  ultimately have "sort_key audio ?xs = sort_key audio ?ys"
    by (rule sort_key_eq_sort_key)
  then show ?thesis by (simp add: sounds_of_eq obj)
qed

lemma isascii_append [simp]: "isascii (xs @ ys) = (isascii xs \<and> isascii ys)"
  by (simp add: isascii_def)

lemma isascii_Cons [simp]: "isascii (c # cs) = (of_char c < (128::nat) \<and> isascii cs)"
  by (simp add: isascii_def)

lemma isascii_Nil [simp]: "isascii []"
  by (simp add: isascii_def)

lemma of_char_digit_char: "d < 10 \<Longrightarrow> of_char (digit_char d) < (128::nat)"
proof -
  assume d: "d < 10"
  have "list_all (\<lambda>c. of_char c < (128::nat)) ''0123456789''" by simp
  then have "\<forall>n<length ''0123456789''. of_char (''0123456789'' ! n) < (128::nat)"
    by (simp only: list_all_length)
  with d show ?thesis by (simp add: digit_char_def)
qed

lemma isascii_str: "isascii (str n)"
proof (induction n rule: str.induct)
  case (1 n)
  show ?case
  proof (cases "n < 10")
    case True
    then show ?thesis by (simp add: str.simps [of n] of_char_digit_char)
  next
    case False
    with "1" have "isascii (str (n div 10))" by simp
    with False show ?thesis by (simp add: str.simps [of n] of_char_digit_char)
  qed
qed

lemma print_eq:
  "print line w =
     (if printable w line then Inr (w\<lparr>stdout := stdout w @ [line]\<rparr>)
      else Inl UnicodeEncodeError)"
  by (simp add: print_def printable_def)

lemma printable_isascii: "isascii line \<Longrightarrow> printable w line"
  by (simp add: printable_def)

lemma printable_stdout_update: "printable (w\<lparr>stdout := s\<rparr>) = printable w"
  by (intro ext) (simp add: printable_def)

lemma printable_files_update: "printable (w\<lparr>files := f\<rparr>) = printable w"
  by (intro ext) (simp add: printable_def)

lemma backing_loop_eq:
  "backing_loop dir xs acc w =
     (if list_all (printable w) (warnings (mp3_length w) dir xs)
      then (Inr (acc @ map (backing_obj (mp3_length w) dir) (filter (suffix ''.mp3'') xs)),
            w\<lparr>stdout := stdout w @ warnings (mp3_length w) dir xs\<rparr>)
      else (Inl UnicodeEncodeError,
            w\<lparr>stdout := stdout w
                 @ takeWhile (printable w) (warnings (mp3_length w) dir xs)\<rparr>))"
proof (induction xs arbitrary: acc w)
  case Nil
  show ?case by simp
next
  case (Cons f xs)
  show ?case
  proof (cases "suffix ''.mp3'' f")
    case False
    then show ?thesis by (simp add: Cons.IH)
  next
    case True
    show ?thesis
    proof (cases "mp3_length w (dir @ ''/'' @ f)")
      case (Inr d)
      with True show ?thesis by (simp add: Cons.IH backing_obj_def [of _ dir f])
    next
      case (Inl e)
      show ?thesis
      proof (cases "printable w (warning f e)")
        case False
        with True Inl show ?thesis by (simp add: print_eq)
      next
        case printable: True
        with True Inl show ?thesis
          by (simp add: print_eq Cons.IH backing_obj_def [of _ dir f] printable_stdout_update)
      qed
    qed
  qed
qed

lemma backing_tracks_of_eq:
  "backing_tracks_of w bfs =
     sort_key audio (map (backing_obj (mp3_length w) ''../assets/backing_tracks'')
                       (filter (suffix ''.mp3'') bfs))"
  by (simp only: backing_tracks_of_def)

lemma isascii_soundlist_summary: "isascii (''Created soundlist.json with '' @ str n @ '' sounds'')"
  by (simp add: isascii_str)

lemma isascii_audiomap_summary:
  "isascii (''Created audiomap.json with '' @ str m @ '' backing tracks and ''
            @ str n @ '' sounds'')"
  by (simp add: isascii_str)

lemma create_soundlist_main_eq:
  "create_soundlist_main w =
     (case dirs w ''sounds'' of
        None \<Rightarrow> (Inl (OSError ''sounds''), w)
      | Some fs \<Rightarrow>
          if ''soundlist.json'' \<in> unwritable w then (Inl (OSError ''soundlist.json''), w)
          else (Inr (),
                w\<lparr>files := (files w)(''soundlist.json'' \<mapsto> SoundList (sounds_of ''sounds/'' fs)),
                  stdout := stdout w @
                    [''Created soundlist.json with ''
                     @ str (length (sounds_of ''sounds/'' fs)) @ '' sounds'']\<rparr>))"
  unfolding create_soundlist_main_def listdir_def json_dump_def Let_def
  by (simp add: print_eq printable_def isascii_str split: option.split)

lemma create_audiomap_main_eq:
  "create_audiomap_main w =
     (case dirs w ''../assets/sounds'' of
        None \<Rightarrow> (Inl (OSError ''../assets/sounds''), w)
      | Some fs \<Rightarrow>
         (case dirs w ''../assets/backing_tracks'' of
            None \<Rightarrow> (Inl (OSError ''../assets/backing_tracks''), w)
          | Some bfs \<Rightarrow>
              if \<not> list_all (printable w)
                     (warnings (mp3_length w) ''../assets/backing_tracks'' bfs)
              then (Inl UnicodeEncodeError,
                    w\<lparr>stdout := stdout w
                        @ takeWhile (printable w)
                            (warnings (mp3_length w) ''../assets/backing_tracks'' bfs)\<rparr>)
              else if ''audiomap.json'' \<in> unwritable w
              then (Inl (OSError ''audiomap.json''),
                    w\<lparr>stdout := stdout w
                        @ warnings (mp3_length w) ''../assets/backing_tracks'' bfs\<rparr>)
              else (Inr (),
                    w\<lparr>files := (files w)(''audiomap.json'' \<mapsto>
                          AudioMap (backing_tracks_of w bfs) (sounds_of ''assets/sounds/'' fs)),
                      stdout := stdout w @ warnings (mp3_length w) ''../assets/backing_tracks'' bfs @
                        [''Created audiomap.json with ''
                         @ str (length (backing_tracks_of w bfs)) @ '' backing tracks and ''
                         @ str (length (sounds_of ''assets/sounds/'' fs)) @ '' sounds'']\<rparr>)))"
  unfolding create_audiomap_main_def listdir_def json_dump_def Let_def
    backing_tracks_of_def backing_loop_eq
  by (simp add: print_eq printable_def isascii_str split: option.split)

subsection \<open>Facts about the library functions and the entries\<close>

lemma replace_from_trailing:
  assumes "\<forall>i<length b. \<not> prefix old (drop i (b @ old))" and "old \<noteq> []"
  shows "replace_from old new (b @ old) = b @ new"
  using assms(1)
proof (induction b)
  case Nil
  have "replace_from old new old = new @ replace_from old new []"
    using assms(2) by (cases old) simp_all
  then show ?case by simp
next
  case (Cons c b)
  from Cons.prems have "\<not> prefix old ((c # b) @ old)"
    by (metis drop0 length_greater_0_conv list.distinct(1))
  moreover have "\<forall>i<length b. \<not> prefix old (drop i (b @ old))"
  proof (intro allI impI)
    fix i assume "i < length b"
    then have "Suc i < length (c # b)" by simp
    with Cons.prems have "\<not> prefix old (drop (Suc i) ((c # b) @ old))" by blast
    then show "\<not> prefix old (drop i (b @ old))" by simp
  qed
  ultimately show ?case using Cons.IH by simp
qed

lemma length_filter_sort_key: "length (filter P (sort_key k xs)) = length (filter P xs)"
proof -
  have "mset (filter P (sort_key k xs)) = mset (filter P xs)" by simp
  then show ?thesis by (rule mset_eq_length)
qed

lemma length_filter_eq_distinct:
  "distinct xs \<Longrightarrow> length (filter (\<lambda>x. x = a) xs) = (if a \<in> set xs then 1 else 0)"
  by (induction xs) auto

lemma set_sounds_of:
  "set (sounds_of r fs) = sound_obj r fs ` {f \<in> set fs. suffix ''.wav'' f}"
  by (simp add: sounds_of_eq)

lemma icon_sound_obj:
  "icon (sound_obj r fs f) =
     (if replace f ''.wav'' ''__icon.png'' \<in> set fs
      then Some (r @ replace f ''.wav'' ''__icon.png'')
      else if replace f ''.wav'' ''__icon.svg'' \<in> set fs
      then Some (r @ replace f ''.wav'' ''__icon.svg'')
      else None)"
  by (simp add: sound_obj_def Let_def)

lemma replace_wav_trailing:
  assumes "\<forall>i<length b. \<not> prefix ''.wav'' (drop i (b @ ''.wav''))"
  shows "replace (b @ ''.wav'') ''.wav'' new = b @ new"
  using replace_from_trailing [OF assms] by (simp add: replace_def)

lemma sounds_of_prefixes:
  assumes "e \<in> set (sounds_of ''assets/sounds/'' fs)" and "icon e = Some i"
  shows "prefix ''sounds/'' (audio e) \<and> prefix ''assets/sounds/'' i
         \<and> \<not> prefix ''assets/sounds/'' (audio e) \<and> \<not> prefix ''sounds/'' i"
proof -
  from assms(1) obtain f where e: "e = sound_obj ''assets/sounds/'' fs f"
    unfolding set_sounds_of by blast
  have a: "audio e = ''sounds/'' @ f" by (simp only: e audio_sound_obj)
  from assms(2) obtain c where i: "i = ''assets/sounds/'' @ c"
    unfolding e icon_sound_obj by (auto split: if_splits)
  show ?thesis unfolding a i by simp
qed

lemma sorted_sounds_of: "sorted (map audio (sounds_of r fs))"
  by (simp add: sounds_of_def)

lemma sorted_backing_tracks_of: "sorted (map audio (backing_tracks_of w bfs))"
  by (simp add: backing_tracks_of_def)

lemma audio_backing_obj: "audio (backing_obj m dir f) = ''assets/backing_tracks/'' @ f"
  by (simp add: backing_obj_def)

lemma inj_on_audio_backing_obj: "inj_on audio (backing_obj m dir ` A)"
  by (auto simp: inj_on_def audio_backing_obj)

lemma backing_tracks_of_perm:
  assumes "mset bfs = mset bfs'" and "mp3_length w' = mp3_length w"
  shows "backing_tracks_of w bfs = backing_tracks_of w' bfs'"
proof -
  let ?g = "backing_obj (mp3_length w) ''../assets/backing_tracks''"
  let ?xs = "map ?g (filter (suffix ''.mp3'') bfs)"
  let ?ys = "map ?g (filter (suffix ''.mp3'') bfs')"
  have "mset ?xs = mset ?ys" using assms(1) by simp
  moreover have "inj_on audio (set ?xs)"
    unfolding set_map by (rule inj_on_audio_backing_obj)
  ultimately have "sort_key audio ?xs = sort_key audio ?ys"
    by (rule sort_key_eq_sort_key)
  then show ?thesis by (simp only: backing_tracks_of_eq assms(2))
qed

lemma set_warnings:
  "set (warnings m dir xs) =
     {warning f e | f e. f \<in> set xs \<and> suffix ''.mp3'' f \<and> m (dir @ ''/'' @ f) = Inl e}"
proof (induction xs)
  case Nil
  show ?case by simp
next
  case (Cons g xs)
  show ?case
  proof (cases "suffix ''.mp3'' g")
    case False
    then show ?thesis using Cons.IH by auto
  next
    case True
    show ?thesis
    proof (cases "m (dir @ ''/'' @ g)")
      case (Inl e)
      with True show ?thesis using Cons.IH by auto
    next
      case (Inr d)
      with True show ?thesis using Cons.IH by auto
    qed
  qed
qed

lemma set_warnings_cong:
  "set xs = set ys \<Longrightarrow> set (warnings m dir xs) = set (warnings m dir ys)"
  by (simp only: set_warnings)

lemma warning_printed:
  assumes "f \<in> set bfs" and "suffix ''.mp3'' f" and "m (dir @ ''/'' @ f) = Inl cause"
  shows "warning f cause \<in> set (warnings m dir bfs)"
  unfolding set_warnings using assms by blast

lemma set_backing_tracks_of:
  "set (backing_tracks_of w bfs) =
     backing_obj (mp3_length w) ''../assets/backing_tracks'' ` {f \<in> set bfs. suffix ''.mp3'' f}"
  by (simp add: backing_tracks_of_eq)

lemma mset_map_sort_key: "mset (map k (sort_key k xs)) = mset (map k xs)"
  by simp

lemma mset_audio_backing_tracks_of:
  "mset (map audio (backing_tracks_of w bfs)) =
     mset (map ((@) ''assets/backing_tracks/'') (filter (suffix ''.mp3'') bfs))"
proof -
  have "map audio (map (backing_obj (mp3_length w) ''../assets/backing_tracks'')
                     (filter (suffix ''.mp3'') bfs))
          = map ((@) ''assets/backing_tracks/'') (filter (suffix ''.mp3'') bfs)"
    by (simp add: audio_backing_obj)
  then show ?thesis by (simp only: backing_tracks_of_eq mset_map_sort_key)
qed

lemma mset_audio_sounds_of:
  "mset (map audio (sounds_of r fs)) =
     mset (map ((@) ''sounds/'') (filter (suffix ''.wav'') fs))"
proof -
  have "map audio (map (sound_obj r fs) (filter (suffix ''.wav'') fs))
          = map ((@) ''sounds/'') (filter (suffix ''.wav'') fs)"
    by (simp add: audio_sound_obj)
  then show ?thesis by (simp only: sounds_of_eq mset_map_sort_key)
qed

subsection \<open>The sample runs\<close>

lemma example_sounds:
  "sounds_of ''sounds/'' [''snare.wav'', ''kick__icon.png'', ''kick.wav''] =
     [\<lparr>audio = ''sounds/kick.wav'', icon = Some ''sounds/kick__icon.png''\<rparr>,
      \<lparr>audio = ''sounds/snare.wav'', icon = None\<rparr>]"
  by (simp add: sounds_of_def replace_def suffix_to_prefix)

lemma example_asset_sounds:
  "sounds_of ''assets/sounds/'' [''snare.wav'', ''kick__icon.svg'', ''kick__icon.png'', ''kick.wav''] =
     [\<lparr>audio = ''sounds/kick.wav'', icon = Some ''assets/sounds/kick__icon.png''\<rparr>,
      \<lparr>audio = ''sounds/snare.wav'', icon = None\<rparr>]"
  by (simp add: sounds_of_def replace_def suffix_to_prefix)

lemma example_backing_tracks:
  "backing_tracks_of example_world [''loop.mp3'', ''notes.txt'', ''broken.mp3''] =
     [\<lparr>audio = ''assets/backing_tracks/broken.mp3'', duration = None\<rparr>,
      \<lparr>audio = ''assets/backing_tracks/loop.mp3'', duration = Some ''12.5''\<rparr>]"
  by (simp add: backing_tracks_of_def backing_obj_def example_world_def example_lengths_def
        suffix_to_prefix)

lemma example_soundlist_run:
  "create_soundlist_main example_world =
     (Inr (),
      example_world
        \<lparr>files := [''soundlist.json'' \<mapsto> SoundList
            [\<lparr>audio = ''sounds/kick.wav'', icon = Some ''sounds/kick__icon.png''\<rparr>,
             \<lparr>audio = ''sounds/snare.wav'', icon = None\<rparr>]],
         stdout := [''Created soundlist.json with 2 sounds'']\<rparr>)"
proof -
  have d: "dirs example_world ''sounds'' = Some [''snare.wav'', ''kick__icon.png'', ''kick.wav'']"
    by (simp add: example_world_def)
  have u: "''soundlist.json'' \<notin> unwritable example_world"
    by (simp add: example_world_def)
  have f: "files example_world = Map.empty" "stdout example_world = []"
    by (simp_all add: example_world_def)
  show ?thesis
    by (simp add: create_soundlist_main_eq d u f example_sounds str.simps digit_char_def)
qed

lemma example_audiomap_run:
  "create_audiomap_main example_world =
     (Inr (),
      example_world
        \<lparr>files := [''audiomap.json'' \<mapsto> AudioMap
            [\<lparr>audio = ''assets/backing_tracks/broken.mp3'', duration = None\<rparr>,
             \<lparr>audio = ''assets/backing_tracks/loop.mp3'', duration = Some ''12.5''\<rparr>]
            [\<lparr>audio = ''sounds/kick.wav'', icon = Some ''assets/sounds/kick__icon.png''\<rparr>,
             \<lparr>audio = ''sounds/snare.wav'', icon = None\<rparr>]],
         stdout := [''Warning: Could not read duration for broken.mp3: no MPEG frame'',
                    ''Created audiomap.json with 2 backing tracks and 2 sounds'']\<rparr>)"
proof -
  have d: "dirs example_world ''../assets/sounds''
             = Some [''snare.wav'', ''kick__icon.svg'', ''kick__icon.png'', ''kick.wav'']"
     "dirs example_world ''../assets/backing_tracks''
             = Some [''loop.mp3'', ''notes.txt'', ''broken.mp3'']"
    by (simp_all add: example_world_def)
  have u: "''audiomap.json'' \<notin> unwritable example_world"
    by (simp add: example_world_def)
  have f: "files example_world = Map.empty" "stdout example_world = []"
    by (simp_all add: example_world_def)
  have m: "mp3_length example_world = example_lengths"
    by (simp add: example_world_def)
  show ?thesis
    by (simp add: create_audiomap_main_eq d u f m example_lengths_def suffix_to_prefix
          warning_def printable_def example_asset_sounds example_backing_tracks
          str.simps digit_char_def)
qed

subsection \<open>Runs on reordered listings, and repeated runs\<close>

lemma soundlist_run_perm:
  assumes "unwritable w2 = unwritable w1"
    and "map_option mset (dirs w2 ''sounds'') = map_option mset (dirs w1 ''sounds'')"
  shows "fst (create_soundlist_main w2) = fst (create_soundlist_main w1)
       \<and> (fst (create_soundlist_main w1) = Inr () \<longrightarrow>
            files (snd (create_soundlist_main w2)) ''soundlist.json''
              = files (snd (create_soundlist_main w1)) ''soundlist.json'')"
proof (cases "dirs w1 ''sounds''")
  case None
  with assms(2) have "dirs w2 ''sounds'' = None" by simp
  with None show ?thesis by (simp add: create_soundlist_main_eq)
next
  case (Some fs1)
  with assms(2) obtain fs2 where fs2: "dirs w2 ''sounds'' = Some fs2" "mset fs2 = mset fs1"
    by (cases "dirs w2 ''sounds''") simp_all
  from fs2(2) have "sounds_of ''sounds/'' fs2 = sounds_of ''sounds/'' fs1"
    by (rule sounds_of_perm)
  with Some fs2(1) assms(1) show ?thesis by (simp add: create_soundlist_main_eq)
qed

lemma audiomap_run_perm:
  assumes "mp3_length w2 = mp3_length w1" and "unwritable w2 = unwritable w1"
    and "map_option mset (dirs w2 ''../assets/sounds'')
           = map_option mset (dirs w1 ''../assets/sounds'')"
    and "map_option mset (dirs w2 ''../assets/backing_tracks'')
           = map_option mset (dirs w1 ''../assets/backing_tracks'')"
  shows "fst (create_audiomap_main w2) = fst (create_audiomap_main w1)
       \<and> (fst (create_audiomap_main w1) = Inr () \<longrightarrow>
            files (snd (create_audiomap_main w2)) ''audiomap.json''
              = files (snd (create_audiomap_main w1)) ''audiomap.json'')"
proof (cases "dirs w1 ''../assets/sounds''")
  case None
  with assms(3) have "dirs w2 ''../assets/sounds'' = None" by simp
  with None show ?thesis by (simp add: create_audiomap_main_eq)
next
  case (Some fs1)
  with assms(3) obtain fs2 where
    fs2: "dirs w2 ''../assets/sounds'' = Some fs2" "mset fs2 = mset fs1"
    by (cases "dirs w2 ''../assets/sounds''") simp_all
  from fs2(2) have snd_eq: "sounds_of ''assets/sounds/'' fs2 = sounds_of ''assets/sounds/'' fs1"
    by (rule sounds_of_perm)
  show ?thesis
  proof (cases "dirs w1 ''../assets/backing_tracks''")
    case None
    with assms(4) have "dirs w2 ''../assets/backing_tracks'' = None" by simp
    with None Some fs2(1) show ?thesis by (simp add: create_audiomap_main_eq)
  next
    case bfs1: (Some bfs1)
    with assms(4) obtain bfs2 where
      bfs2: "dirs w2 ''../assets/backing_tracks'' = Some bfs2" "mset bfs2 = mset bfs1"
      by (cases "dirs w2 ''../assets/backing_tracks''") simp_all
    from bfs2(2) assms(1) [symmetric]
    have bt_eq: "backing_tracks_of w2 bfs2 = backing_tracks_of w1 bfs1"
      by (rule backing_tracks_of_perm)
    have p_eq: "printable w2 = printable w1"
      using assms(2) by (intro ext) (simp add: printable_def)
    from bfs2(2) have "set bfs2 = set bfs1" by (rule mset_eq_setD)
    then have "set (warnings (mp3_length w1) ''../assets/backing_tracks'' bfs2)
                 = set (warnings (mp3_length w1) ''../assets/backing_tracks'' bfs1)"
      by (rule set_warnings_cong)
    then have all_eq:
      "list_all (printable w1) (warnings (mp3_length w1) ''../assets/backing_tracks'' bfs2)
         = list_all (printable w1) (warnings (mp3_length w1) ''../assets/backing_tracks'' bfs1)"
      by (simp only: list_all_iff)
    show ?thesis
      by (simp add: create_audiomap_main_eq Some fs2(1) bfs1 bfs2(1) assms(1,2) p_eq all_eq
            snd_eq bt_eq)
  qed
qed

lemma soundlist_rerun:
  "files (snd (create_soundlist_main (snd (create_soundlist_main w))))
     = files (snd (create_soundlist_main w))"
  by (simp add: create_soundlist_main_eq split: option.split)

lemma audiomap_rerun:
  "files (snd (create_audiomap_main (snd (create_audiomap_main w))))
     = files (snd (create_audiomap_main w))"
  by (simp add: create_audiomap_main_eq backing_tracks_of_eq printable_stdout_update
        printable_files_update split: option.split)

subsection \<open>Where the scripts do what is expected of them\<close>

lemma icon_lookup_by_replace:
  assumes "e \<in> set (sounds_of icon_root filenames)" and "audio e = ''sounds/'' @ f"
  shows "(replace f ''.wav'' ''__icon.png'' \<in> set filenames
            \<and> replace f ''.wav'' ''__icon.svg'' \<in> set filenames
          \<longrightarrow> icon e = Some (icon_root @ replace f ''.wav'' ''__icon.png''))
       \<and> (replace f ''.wav'' ''__icon.png'' \<notin> set filenames
            \<and> replace f ''.wav'' ''__icon.svg'' \<notin> set filenames
          \<longrightarrow> icon e = None)"
proof -
  from assms(1) obtain g where e: "e = sound_obj icon_root filenames g"
    unfolding set_sounds_of by blast
  with assms(2) have "g = f" by (simp add: audio_sound_obj)
  with e show ?thesis by (simp add: icon_sound_obj)
qed

lemma icon_prefers_png_trailing_extension:
  assumes "\<forall>i<length b. \<not> prefix ''.wav'' (drop i (b @ ''.wav''))"
    and "e \<in> set (sounds_of icon_root filenames)"
    and "audio e = ''sounds/'' @ b @ ''.wav''"
  shows "(b @ ''__icon.png'' \<in> set filenames \<and> b @ ''__icon.svg'' \<in> set filenames
          \<longrightarrow> icon e = Some (icon_root @ b @ ''__icon.png''))
       \<and> (b @ ''__icon.png'' \<notin> set filenames \<and> b @ ''__icon.svg'' \<notin> set filenames
          \<longrightarrow> icon e = None)"
  using icon_lookup_by_replace [OF assms(2,3)]
  by (simp only: replace_wav_trailing [OF assms(1)])

lemma unreadable_backing_track_kept_when_warnings_print:
  assumes "dirs w ''../assets/sounds'' = Some filenames"
    and "dirs w ''../assets/backing_tracks'' = Some backing_filenames"
    and "''audiomap.json'' \<notin> unwritable w"
    and "f \<in> set backing_filenames" and "suffix ''.mp3'' f"
    and "mp3_length w (''../assets/backing_tracks'' @ ''/'' @ f) = Inl cause"
    and "list_all (printable w)
           (warnings (mp3_length w) ''../assets/backing_tracks'' backing_filenames)"
  shows "fst (create_audiomap_main w) = Inr ()
       \<and> warning f cause
            \<in> set (stdout (snd (create_audiomap_main w)))
       \<and> (\<exists>bts snds.
            files (snd (create_audiomap_main w)) ''audiomap.json'' = Some (AudioMap bts snds)
            \<and> \<lparr>audio = ''assets/backing_tracks/'' @ f, duration = None\<rparr> \<in> set bts
            \<and> mset (map audio bts)
                = mset (map ((@) ''assets/backing_tracks/'')
                         (filter (suffix ''.mp3'') backing_filenames))
            \<and> mset (map audio snds)
                = mset (map ((@) ''sounds/'') (filter (suffix ''.wav'') filenames)))"
proof -
  let ?w' = "snd (create_audiomap_main w)"
  have run: "fst (create_audiomap_main w) = Inr ()"
    and out: "files ?w' ''audiomap.json''
       = Some (AudioMap (backing_tracks_of w backing_filenames)
                 (sounds_of ''assets/sounds/'' filenames))"
    using assms(1-3,7) by (simp_all add: create_audiomap_main_eq)
  have log: "set (warnings (mp3_length w) ''../assets/backing_tracks'' backing_filenames)
                \<subseteq> set (stdout ?w')"
    using assms(1-3,7) by (auto simp: create_audiomap_main_eq)
  have "warning f cause
          \<in> set (warnings (mp3_length w) ''../assets/backing_tracks'' backing_filenames)"
    using assms(4-6) by (rule warning_printed)
  with log have warned: "warning f cause
          \<in> set (stdout ?w')" by blast
  have "backing_obj (mp3_length w) ''../assets/backing_tracks'' f
          = \<lparr>audio = ''assets/backing_tracks/'' @ f, duration = None\<rparr>"
    using assms(6) by (simp add: backing_obj_def)
  then have kept: "\<lparr>audio = ''assets/backing_tracks/'' @ f, duration = None\<rparr>
          \<in> set (backing_tracks_of w backing_filenames)"
    unfolding set_backing_tracks_of using assms(4,5) by force
  from run warned out kept mset_audio_backing_tracks_of mset_audio_sounds_of
  show ?thesis by blast
qed

section \<open>The claims\<close>

text \<open>
  By \<open>create_soundlist_main_eq\<close> and \<open>create_audiomap_main_eq\<close>, the sounds dumped by the
  simple script are \<^term>\<open>sounds_of ''sounds/'' filenames\<close> and those dumped by the extended
  script are \<^term>\<open>sounds_of ''assets/sounds/'' filenames\<close>, for the listing \<open>filenames\<close> of
  the sound directory. Statements about \<^term>\<open>sounds_of icon_root filenames\<close> hold for both.
\<close>

text \<open>
  C1. After the test \<^verbatim>\<open>filename.endswith(".wav")\<close> the scripts compute the icon candidate
  with \<^verbatim>\<open>filename.replace(".wav", ...)\<close>, which replaces every occurrence of \<^verbatim>\<open>.wav\<close>, not
  only the extension. When \<^verbatim>\<open>.wav\<close> occurs only at the end the two agree
  (\<open>replace_wav_trailing\<close>). For \<^verbatim>\<open>a.wav.wav\<close> they do not: the candidates are
  \<^verbatim>\<open>a__icon.png__icon.png\<close> and \<^verbatim>\<open>a__icon.svg__icon.svg\<close>, not \<^verbatim>\<open>a.wav__icon.png\<close>, and the
  sibling icon \<^verbatim>\<open>a.wav__icon.png\<close> in the same listing is not found.
\<close>

theorem icon_candidate_repeated_extension:
  "suffix ''.wav'' ''a.wav.wav''
   \<and> replace ''a.wav.wav'' ''.wav'' ''__icon.png'' = ''a__icon.png__icon.png''
   \<and> replace ''a.wav.wav'' ''.wav'' ''__icon.svg'' = ''a__icon.svg__icon.svg''
   \<and> sounds_of ''sounds/'' [''a.wav.wav'', ''a.wav__icon.png'']
       = [\<lparr>audio = ''sounds/a.wav.wav'', icon = None\<rparr>]"
  by (simp add: sounds_of_def replace_def suffix_to_prefix)

text \<open>
  C2. In the document dumped by the extended script, every sound with an icon has an
  \<^verbatim>\<open>audio\<close> path that starts with \<^verbatim>\<open>sounds/\<close> and an \<^verbatim>\<open>icon\<close> path that starts with
  \<^verbatim>\<open>assets/sounds/\<close>; neither path has the other's prefix.
\<close>

theorem audiomap_sound_prefixes:
  assumes "fst (create_audiomap_main w) = Inr ()"
    and "files (snd (create_audiomap_main w)) ''audiomap.json'' = Some (AudioMap bts snds)"
    and "e \<in> set snds" and "icon e = Some i"
  shows "prefix ''sounds/'' (audio e) \<and> prefix ''assets/sounds/'' i
         \<and> \<not> prefix ''assets/sounds/'' (audio e) \<and> \<not> prefix ''sounds/'' i"
proof -
  from assms(1,2) obtain fs where "snds = sounds_of ''assets/sounds/'' fs"
    by (auto simp: create_audiomap_main_eq split: option.splits if_splits)
  with assms(3,4) show ?thesis by (intro sounds_of_prefixes) simp_all
qed

theorem audiomap_sound_prefixes_witness:
  "fst (create_audiomap_main example_world) = Inr ()
   \<and> files (snd (create_audiomap_main example_world)) ''audiomap.json''
       = Some (AudioMap
            [\<lparr>audio = ''assets/backing_tracks/broken.mp3'', duration = None\<rparr>,
             \<lparr>audio = ''assets/backing_tracks/loop.mp3'', duration = Some ''12.5''\<rparr>]
            [\<lparr>audio = ''sounds/kick.wav'', icon = Some ''assets/sounds/kick__icon.png''\<rparr>,
             \<lparr>audio = ''sounds/snare.wav'', icon = None\<rparr>])
   \<and> prefix ''sounds/'' ''sounds/kick.wav''
   \<and> prefix ''assets/sounds/'' ''assets/sounds/kick__icon.png''
   \<and> \<not> prefix ''assets/sounds/'' ''sounds/kick.wav''
   \<and> \<not> prefix ''sounds/'' ''assets/sounds/kick__icon.png''"
  using audiomap_sound_prefixes [of example_world
          "[\<lparr>audio = ''assets/backing_tracks/broken.mp3'', duration = None\<rparr>,
            \<lparr>audio = ''assets/backing_tracks/loop.mp3'', duration = Some ''12.5''\<rparr>]"
          "[\<lparr>audio = ''sounds/kick.wav'', icon = Some ''assets/sounds/kick__icon.png''\<rparr>,
            \<lparr>audio = ''sounds/snare.wav'', icon = None\<rparr>]"
          "\<lparr>audio = ''sounds/kick.wav'', icon = Some ''assets/sounds/kick__icon.png''\<rparr>"
          "''assets/sounds/kick__icon.png''"]
  by (simp add: example_audiomap_run)

text \<open>
  C3. A listing has no repeated names. Every name in it that ends in \<^verbatim>\<open>.wav\<close> has exactly
  one entry in the sounds (the entry whose \<^verbatim>\<open>audio\<close> is \<^verbatim>\<open>sounds/\<close> followed by the
  name), every other name has none, and every entry belongs to a \<^verbatim>\<open>.wav\<close> name of the
  listing; so icon files never get an entry of their own.
\<close>

theorem one_entry_per_wav_file:
  assumes "distinct filenames"
  shows "length (filter (\<lambda>e. audio e = ''sounds/'' @ f) (sounds_of icon_root filenames))
           = (if f \<in> set filenames \<and> suffix ''.wav'' f then 1 else 0)
         \<and> (\<forall>e \<in> set (sounds_of icon_root filenames).
               \<exists>g \<in> set filenames. suffix ''.wav'' g \<and> audio e = ''sounds/'' @ g)"
proof
  have "length (filter (\<lambda>e. audio e = ''sounds/'' @ f) (sounds_of icon_root filenames))
          = length (filter (\<lambda>g. g = f) (filter (suffix ''.wav'') filenames))"
    by (simp only: sounds_of_eq length_filter_sort_key filter_map length_map o_def
          audio_sound_obj same_append_eq)
  also have "\<dots> = (if f \<in> set (filter (suffix ''.wav'') filenames) then 1 else 0)"
    using assms by (intro length_filter_eq_distinct distinct_filter)
  finally show "length (filter (\<lambda>e. audio e = ''sounds/'' @ f) (sounds_of icon_root filenames))
           = (if f \<in> set filenames \<and> suffix ''.wav'' f then 1 else 0)"
    by simp
  show "\<forall>e \<in> set (sounds_of icon_root filenames).
               \<exists>g \<in> set filenames. suffix ''.wav'' g \<and> audio e = ''sounds/'' @ g"
    unfolding set_sounds_of using audio_sound_obj by blast
qed

theorem one_entry_per_wav_file_witness:
  "distinct [''snare.wav'', ''kick__icon.png'', ''kick.wav'']
   \<and> length (filter (\<lambda>e. audio e = ''sounds/kick.wav'')
          (sounds_of ''sounds/'' [''snare.wav'', ''kick__icon.png'', ''kick.wav''])) = 1
   \<and> length (filter (\<lambda>e. audio e = ''sounds/kick__icon.png'')
          (sounds_of ''sounds/'' [''snare.wav'', ''kick__icon.png'', ''kick.wav''])) = 0"
  using one_entry_per_wav_file [of "[''snare.wav'', ''kick__icon.png'', ''kick.wav'']"
          "''kick.wav''" "''sounds/''"]
        one_entry_per_wav_file [of "[''snare.wav'', ''kick__icon.png'', ''kick.wav'']"
          "''kick__icon.png''" "''sounds/''"]
  by (simp add: suffix_to_prefix)

text \<open>
  C4. The sibling icons of \<^verbatim>\<open>a.wav.wav\<close> are \<^verbatim>\<open>a.wav__icon.png\<close> and \<^verbatim>\<open>a.wav__icon.svg\<close>.
  With both in the listing the scripts leave the icon \<^verbatim>\<open>None\<close>, not the png path: they look
  for \<^verbatim>\<open>a__icon.png__icon.png\<close> and \<^verbatim>\<open>a__icon.svg__icon.svg\<close>, because \<^verbatim>\<open>replace\<close> replaces
  every occurrence of \<^verbatim>\<open>.wav\<close>. With neither sibling in the listing but a file of that
  second name, the icon is set. Where \<^verbatim>\<open>.wav\<close> occurs only at the end, the png sibling is
  preferred and the icon is \<^verbatim>\<open>None\<close> without siblings
  (\<open>icon_prefers_png_trailing_extension\<close>).
\<close>

theorem sibling_icons_missed_for_repeated_extension:
  "sounds_of ''sounds/'' [''a.wav.wav'', ''a.wav__icon.png'', ''a.wav__icon.svg'']
     = [\<lparr>audio = ''sounds/a.wav.wav'', icon = None\<rparr>]
   \<and> sounds_of ''assets/sounds/'' [''a.wav.wav'', ''a.wav__icon.png'', ''a.wav__icon.svg'']
     = [\<lparr>audio = ''sounds/a.wav.wav'', icon = None\<rparr>]
   \<and> sounds_of ''sounds/'' [''a.wav.wav'', ''a__icon.svg__icon.svg'']
     = [\<lparr>audio = ''sounds/a.wav.wav'', icon = Some ''sounds/a__icon.svg__icon.svg''\<rparr>]"
  by (simp add: sounds_of_def replace_def suffix_to_prefix)

text \<open>
  C5. Whatever the order of the listings, the sequence dumped by the simple script, and
  both sequences dumped by the extended script, are sorted ascending by \<^verbatim>\<open>audio\<close> in
  the lexicographic order of strings.
\<close>

theorem written_sequences_sorted:
  "(fst (create_soundlist_main w) = Inr () \<longrightarrow>
      (\<exists>snds. files (snd (create_soundlist_main w)) ''soundlist.json'' = Some (SoundList snds)
         \<and> sorted (map audio snds)))
   \<and> (fst (create_audiomap_main w) = Inr () \<longrightarrow>
      (\<exists>bts snds. files (snd (create_audiomap_main w)) ''audiomap.json''
            = Some (AudioMap bts snds)
         \<and> sorted (map audio bts) \<and> sorted (map audio snds)))"
proof (intro conjI impI)
  assume "fst (create_soundlist_main w) = Inr ()"
  then obtain fs where
    "files (snd (create_soundlist_main w)) ''soundlist.json''
       = Some (SoundList (sounds_of ''sounds/'' fs))"
    by (auto simp: create_soundlist_main_eq split: option.splits if_splits)
  then show "\<exists>snds. files (snd (create_soundlist_main w)) ''soundlist.json''
                 = Some (SoundList snds) \<and> sorted (map audio snds)"
    using sorted_sounds_of by blast
next
  assume "fst (create_audiomap_main w) = Inr ()"
  then obtain fs bfs where
    "files (snd (create_audiomap_main w)) ''audiomap.json''
       = Some (AudioMap (backing_tracks_of w bfs) (sounds_of ''assets/sounds/'' fs))"
    by (auto simp: create_audiomap_main_eq split: option.splits if_splits)
  then show "\<exists>bts snds. files (snd (create_audiomap_main w)) ''audiomap.json''
                 = Some (AudioMap bts snds)
               \<and> sorted (map audio bts) \<and> sorted (map audio snds)"
    using sorted_sounds_of sorted_backing_tracks_of by blast
qed

theorem written_sequences_sorted_witness:
  "fst (create_soundlist_main example_world) = Inr ()
   \<and> (\<exists>snds. files (snd (create_soundlist_main example_world)) ''soundlist.json''
                = Some (SoundList snds) \<and> sorted (map audio snds))
   \<and> fst (create_audiomap_main example_world) = Inr ()
   \<and> (\<exists>bts snds. files (snd (create_audiomap_main example_world)) ''audiomap.json''
                = Some (AudioMap bts snds)
              \<and> sorted (map audio bts) \<and> sorted (map audio snds))"
  using written_sequences_sorted [of example_world]
  by (simp add: example_soundlist_run example_audiomap_run)

text \<open>
  C6. The warning is printed inside the \<^verbatim>\<open>except\<close> handler, before the entry is appended.
  When stdout cannot encode the warning, \<^verbatim>\<open>print\<close> raises and nothing catches it: in a
  process whose stdout encodes ASCII only, the unreadable backing track whose name has
  the letter U+00E9 ends the run with \<^verbatim>\<open>UnicodeEncodeError\<close>. Nothing is printed, no
  manifest is written, and the readable \<^verbatim>\<open>loop.mp3\<close> and the sound \<^verbatim>\<open>kick.wav\<close> get no
  entry. When every warning of the run can be printed, the failure is not fatal
  (\<open>unreadable_backing_track_kept_when_warnings_print\<close>).
\<close>

theorem unprintable_warning_is_fatal:
  "suffix ''.mp3'' (''caf'' @ [CHR 0xE9] @ ''.mp3'')
   \<and> mp3_length ascii_stdout_world
         (''../assets/backing_tracks'' @ ''/'' @ ''caf'' @ [CHR 0xE9] @ ''.mp3'')
       = Inl ''no MPEG frame''
   \<and> create_audiomap_main ascii_stdout_world = (Inl UnicodeEncodeError, ascii_stdout_world)
   \<and> files ascii_stdout_world ''audiomap.json'' = None"
proof -
  have d: "dirs ascii_stdout_world ''../assets/sounds'' = Some [''kick.wav'']"
    "dirs ascii_stdout_world ''../assets/backing_tracks''
       = Some [''loop.mp3'', ''caf'' @ [CHR 0xE9] @ ''.mp3'']"
    by (simp_all add: ascii_stdout_world_def)
  have m: "mp3_length ascii_stdout_world = example_lengths"
    by (simp add: ascii_stdout_world_def)
  have u: "unwritable ascii_stdout_world = {line. \<not> isascii line}"
    by (simp add: ascii_stdout_world_def)
  have run: "create_audiomap_main ascii_stdout_world
               = (Inl UnicodeEncodeError, ascii_stdout_world)"
    by (simp add: create_audiomap_main_eq d m u example_lengths_def suffix_to_prefix
          printable_def warning_def)
  have "files ascii_stdout_world ''audiomap.json'' = None"
    by (simp add: ascii_stdout_world_def)
  with run show ?thesis
    by (simp add: m example_lengths_def suffix_to_prefix)
qed

text \<open>
  C7. When a source directory cannot be listed, the script ends with the error of
  \<^verbatim>\<open>listdir\<close> and the world is the one it started in: nothing is printed, no file is
  written, and an output file of an earlier run is left as it was. In the extended script
  this holds for either directory, since both are listed before anything else is done.
\<close>

theorem missing_directory_is_fatal:
  "(dirs w ''sounds'' = None \<longrightarrow>
      create_soundlist_main w = (Inl (OSError ''sounds''), w))
   \<and> (dirs w ''../assets/sounds'' = None \<or> dirs w ''../assets/backing_tracks'' = None \<longrightarrow>
      (\<exists>e. create_audiomap_main w = (Inl e, w)))"
  by (auto simp: create_soundlist_main_eq create_audiomap_main_eq split: option.splits)

theorem missing_directory_is_fatal_witness:
  "dirs stale_world ''sounds'' = None
   \<and> create_soundlist_main stale_world = (Inl (OSError ''sounds''), stale_world)
   \<and> dirs stale_world ''../assets/sounds'' = None
   \<and> (\<exists>e. create_audiomap_main stale_world = (Inl e, stale_world))
   \<and> files stale_world ''soundlist.json'' = Some (SoundList [])"
  using missing_directory_is_fatal [of stale_world]
  by (simp add: stale_world_def)

text \<open>
  C9. When the sound directory holds exactly \<^verbatim>\<open>kick.wav\<close>, \<^verbatim>\<open>kick__icon.png\<close> and
  \<^verbatim>\<open>snare.wav\<close>, in whatever order they are enumerated, and the output can be opened, the
  simple script returns normally and dumps the two entries of the example, kick first.
\<close>

theorem kick_snare_example:
  assumes "dirs w ''sounds'' = Some filenames"
    and "mset filenames = mset [''kick.wav'', ''kick__icon.png'', ''snare.wav'']"
    and "''soundlist.json'' \<notin> unwritable w"
  shows "fst (create_soundlist_main w) = Inr ()
       \<and> files (snd (create_soundlist_main w)) ''soundlist.json''
           = Some (SoundList
               [\<lparr>audio = ''sounds/kick.wav'', icon = Some ''sounds/kick__icon.png''\<rparr>,
                \<lparr>audio = ''sounds/snare.wav'', icon = None\<rparr>])"
proof -
  have "mset filenames = mset [''snare.wav'', ''kick__icon.png'', ''kick.wav'']"
    unfolding assms(2) by simp
  then have "sounds_of ''sounds/'' filenames
               = sounds_of ''sounds/'' [''snare.wav'', ''kick__icon.png'', ''kick.wav'']"
    by (rule sounds_of_perm)
  then show ?thesis
    using assms(1,3) by (simp add: create_soundlist_main_eq example_sounds)
qed

theorem kick_snare_example_witness:
  "dirs example_world ''sounds'' = Some [''snare.wav'', ''kick__icon.png'', ''kick.wav'']
   \<and> mset [''snare.wav'', ''kick__icon.png'', ''kick.wav'']
       = mset [''kick.wav'', ''kick__icon.png'', ''snare.wav'']
   \<and> ''soundlist.json'' \<notin> unwritable example_world
   \<and> fst (create_soundlist_main example_world) = Inr ()
   \<and> files (snd (create_soundlist_main example_world)) ''soundlist.json''
       = Some (SoundList
           [\<lparr>audio = ''sounds/kick.wav'', icon = Some ''sounds/kick__icon.png''\<rparr>,
            \<lparr>audio = ''sounds/snare.wav'', icon = None\<rparr>])"
proof -
  have h: "dirs example_world ''sounds'' = Some [''snare.wav'', ''kick__icon.png'', ''kick.wav'']"
    "mset [''snare.wav'', ''kick__icon.png'', ''kick.wav'']
       = mset [''kick.wav'', ''kick__icon.png'', ''snare.wav'']"
    "''soundlist.json'' \<notin> unwritable example_world"
    by (simp_all add: example_world_def)
  from kick_snare_example [OF h] h show ?thesis by blast
qed

text \<open>
  C8. The bytes written are those \<^verbatim>\<open>json.dump\<close> produces for the dumped document, so equal
  documents give byte-identical files. Take two worlds with the same metadata reads and
  the same unwritable paths and lines, whose three source directories hold the same names, possibly
  enumerated in different orders. Then each script ends the same way in both, and when it
  returns normally it leaves the same document in its output file. Moreover a second run,
  started in the world the first run left, leaves every file as the first run left it.
\<close>

theorem output_independent_of_enumeration_order:
  assumes "mp3_length w2 = mp3_length w1" and "unwritable w2 = unwritable w1"
    and "map_option mset (dirs w2 ''sounds'') = map_option mset (dirs w1 ''sounds'')"
    and "map_option mset (dirs w2 ''../assets/sounds'')
           = map_option mset (dirs w1 ''../assets/sounds'')"
    and "map_option mset (dirs w2 ''../assets/backing_tracks'')
           = map_option mset (dirs w1 ''../assets/backing_tracks'')"
  shows "fst (create_soundlist_main w2) = fst (create_soundlist_main w1)
       \<and> (fst (create_soundlist_main w1) = Inr () \<longrightarrow>
            files (snd (create_soundlist_main w2)) ''soundlist.json''
              = files (snd (create_soundlist_main w1)) ''soundlist.json'')
       \<and> fst (create_audiomap_main w2) = fst (create_audiomap_main w1)
       \<and> (fst (create_audiomap_main w1) = Inr () \<longrightarrow>
            files (snd (create_audiomap_main w2)) ''audiomap.json''
              = files (snd (create_audiomap_main w1)) ''audiomap.json'')
       \<and> files (snd (create_soundlist_main (snd (create_soundlist_main w1))))
            = files (snd (create_soundlist_main w1))
       \<and> files (snd (create_audiomap_main (snd (create_audiomap_main w1))))
            = files (snd (create_audiomap_main w1))"
  using soundlist_run_perm [OF assms(2,3)] audiomap_run_perm [OF assms(1,2,4,5)]
    soundlist_rerun [of w1] audiomap_rerun [of w1]
  by blast

theorem output_independent_of_enumeration_order_witness:
  "mp3_length example_world_reordered = mp3_length example_world
   \<and> unwritable example_world_reordered = unwritable example_world
   \<and> map_option mset (dirs example_world_reordered ''sounds'')
       = map_option mset (dirs example_world ''sounds'')
   \<and> map_option mset (dirs example_world_reordered ''../assets/sounds'')
       = map_option mset (dirs example_world ''../assets/sounds'')
   \<and> map_option mset (dirs example_world_reordered ''../assets/backing_tracks'')
       = map_option mset (dirs example_world ''../assets/backing_tracks'')
   \<and> dirs example_world_reordered ''sounds'' \<noteq> dirs example_world ''sounds''
   \<and> fst (create_soundlist_main example_world) = Inr ()
   \<and> fst (create_audiomap_main example_world) = Inr ()
   \<and> files (snd (create_soundlist_main example_world_reordered)) ''soundlist.json''
       = files (snd (create_soundlist_main example_world)) ''soundlist.json''
   \<and> files (snd (create_audiomap_main example_world_reordered)) ''audiomap.json''
       = files (snd (create_audiomap_main example_world)) ''audiomap.json''"
proof -
  have h: "mp3_length example_world_reordered = mp3_length example_world"
    "unwritable example_world_reordered = unwritable example_world"
    "map_option mset (dirs example_world_reordered ''sounds'')
       = map_option mset (dirs example_world ''sounds'')"
    "map_option mset (dirs example_world_reordered ''../assets/sounds'')
       = map_option mset (dirs example_world ''../assets/sounds'')"
    "map_option mset (dirs example_world_reordered ''../assets/backing_tracks'')
       = map_option mset (dirs example_world ''../assets/backing_tracks'')"
    by (simp_all add: example_world_def example_world_reordered_def)
  have d: "dirs example_world_reordered ''sounds'' \<noteq> dirs example_world ''sounds''"
    by (simp add: example_world_def example_world_reordered_def)
  have r: "fst (create_soundlist_main example_world) = Inr ()"
    "fst (create_audiomap_main example_world) = Inr ()"
    by (simp_all add: example_soundlist_run example_audiomap_run)
  from output_independent_of_enumeration_order [OF h] h d r show ?thesis by blast
qed

end
